theory Spec2Isabelle
  imports Main "HOL-Library.Sublist" "HOL-Library.AList"
begin

section \<open>Values of the case dashboard\<close>

text \<open>
  A case is a Python dictionary as the store's client library delivers it: strings,
  numbers, booleans, None, lists, string-keyed dictionaries and sets. Numbers arrive as
  \<^verbatim>\<open>decimal.Decimal\<close>. The store's number type holds finite numbers only, so a decimal
  is a sign, a coefficient and an exponent: \<open>Dec s c e\<close> stands for
  \<open>(-1)^s * c * 10^e\<close>.

  A dictionary is an association list in insertion order, looked up with \<open>map_of\<close>. A
  set is the list of its elements in iteration order. Binary floating point is not
  modelled: the type \<open>'f\<close> of floats is a parameter, and so is the conversion
  \<^verbatim>\<open>float(d)\<close> of a decimal.
\<close>

datatype dec = Dec (dec_sign: bool) (dec_coef: nat) (dec_exp: int)

datatype 'f pyval =
    PNone
  | PBool bool
  | PInt int
  | PFloat 'f
  | PStr string
  | PDecimal dec
  | PList "'f pyval list"
  | PDict "(string \<times> 'f pyval) list"
  | PSet "'f pyval list"

type_synonym 'f pydict = "(string \<times> 'f pyval) list"

text \<open>
  Exceptions are values: the class name and the text \<^verbatim>\<open>str(e)\<close>. Only subclasses of
  \<^verbatim>\<open>Exception\<close> are modelled; an interrupt of the process is outside the model.
\<close>

datatype exn = Exn (exn_class: string) (exn_msg: string)

datatype datetime =
  Datetime (dt_year: int) (dt_month: int) (dt_day: int)
           (dt_hour: int) (dt_minute: int) (dt_second: int)

text \<open>
  What the code takes from the Python library and the platform, and what this
  development does not fix: the float conversions, the local time zone (its offset from
  UTC in seconds at a given epoch second), the ISO parser \<^verbatim>\<open>datetime.fromisoformat\<close>,
  \<^verbatim>\<open>str()\<close> of a value that is not a string, the lower-casing \<^verbatim>\<open>str.lower()\<close> of
  Unicode text, and whether the C library pads a year below 1000 to four digits when it
  prints \<^verbatim>\<open>%Y\<close>.
\<close>

record 'f pyenv =
  float_of_decimal :: "dec \<Rightarrow> 'f"
  utcoffset :: "int \<Rightarrow> int"
  fromtimestamp_float :: "'f \<Rightarrow> exn + datetime"
  fromisoformat :: "string \<Rightarrow> exn + datetime"
  str_other :: "'f pyval \<Rightarrow> string"
  lower :: "string \<Rightarrow> string"
  year_padded :: bool

subsection \<open>Decimal arithmetic used by the normalisation\<close>

text \<open>
  \<^verbatim>\<open>obj % 1\<close> runs in the default decimal context, whose precision is 28 digits. The
  library computes the integer quotient of the division along with the remainder and
  signals \<^verbatim>\<open>InvalidOperation\<close> (DivisionImpossible), which the default context traps,
  when that quotient has more than 28 digits. The quotient by 1 is the integer part of
  the absolute value.
\<close>

definition dec_int_part :: "dec \<Rightarrow> nat" where
  "dec_int_part d =
     (if 0 \<le> dec_exp d then dec_coef d * 10 ^ nat (dec_exp d)
      else dec_coef d div 10 ^ nat (- dec_exp d))"

definition dec_frac_nonzero :: "dec \<Rightarrow> bool" where
  "dec_frac_nonzero d =
     (dec_exp d < 0 \<and> dec_coef d mod 10 ^ nat (- dec_exp d) \<noteq> 0)"

definition InvalidOperation :: exn where
  "InvalidOperation = Exn ''InvalidOperation'' ''DivisionImpossible''"

definition dec_mod1_nonzero :: "dec \<Rightarrow> exn + bool" where
  \<comment> \<open>\<^verbatim>\<open>obj % 1 != 0\<close>\<close>
  "dec_mod1_nonzero d =
     (if 10 ^ 28 \<le> dec_int_part d then Inl InvalidOperation
      else Inr (dec_frac_nonzero d))"

definition int_of_dec :: "dec \<Rightarrow> int" where
  \<comment> \<open>\<^verbatim>\<open>int(obj)\<close>: truncation towards zero\<close>
  "int_of_dec d =
     (if dec_sign d then - int (dec_int_part d) else int (dec_int_part d))"

definition convert_decimal :: "'f pyenv \<Rightarrow> dec \<Rightarrow> exn + 'f pyval" where
  \<comment> \<open>\<^verbatim>\<open>float(obj) if obj % 1 != 0 else int(obj)\<close>\<close>
  "convert_decimal env d =
     (case dec_mod1_nonzero d of
        Inl e \<Rightarrow> Inl e
      | Inr b \<Rightarrow> Inr (if b then PFloat (float_of_decimal env d) else PInt (int_of_dec d)))"

text \<open>
  A comprehension evaluates its elements in order; the first element that raises ends
  it with that exception.
\<close>

fun sequence :: "('e + 'a) list \<Rightarrow> 'e + 'a list" where
  "sequence [] = Inr []"
| "sequence (x # xs) =
     (case x of
        Inl e \<Rightarrow> Inl e
      | Inr v \<Rightarrow> (case sequence xs of Inl e \<Rightarrow> Inl e | Inr vs \<Rightarrow> Inr (v # vs)))"

definition keyed :: "'k \<times> ('e + 'a) \<Rightarrow> 'e + ('k \<times> 'a)" where
  "keyed p = (case snd p of Inl e \<Rightarrow> Inl e | Inr v \<Rightarrow> Inr (fst p, v))"

definition wrap :: "('a \<Rightarrow> 'b) \<Rightarrow> 'e + 'a \<Rightarrow> 'e + 'b" where
  "wrap f r = (case r of Inl e \<Rightarrow> Inl e | Inr v \<Rightarrow> Inr (f v))"

subsection \<open>\<^verbatim>\<open>CaseManager._convert_decimals\<close> and \<^verbatim>\<open>convert_decimals\<close>\<close>

text \<open>
  The method of \<^verbatim>\<open>CaseManager\<close> descends into dictionaries and lists and returns
  everything else as it is, sets included. The helper of \<^verbatim>\<open>app.py\<close> has one more
  branch, which turns a set into the list of its converted elements.
\<close>

primrec cm_convert_decimals :: "'f pyenv \<Rightarrow> 'f pyval \<Rightarrow> exn + 'f pyval" where
  "cm_convert_decimals env PNone = Inr PNone"
| "cm_convert_decimals env (PBool b) = Inr (PBool b)"
| "cm_convert_decimals env (PInt i) = Inr (PInt i)"
| "cm_convert_decimals env (PFloat x) = Inr (PFloat x)"
| "cm_convert_decimals env (PStr s) = Inr (PStr s)"
| "cm_convert_decimals env (PDecimal d) = convert_decimal env d"
| "cm_convert_decimals env (PList vs) =
     wrap PList (sequence (map (cm_convert_decimals env) vs))"
| "cm_convert_decimals env (PDict kvs) =
     wrap PDict (sequence (map keyed (map (map_prod id (cm_convert_decimals env)) kvs)))"
| "cm_convert_decimals env (PSet vs) = Inr (PSet vs)"

primrec convert_decimals :: "'f pyenv \<Rightarrow> 'f pyval \<Rightarrow> exn + 'f pyval" where
  "convert_decimals env PNone = Inr PNone"
| "convert_decimals env (PBool b) = Inr (PBool b)"
| "convert_decimals env (PInt i) = Inr (PInt i)"
| "convert_decimals env (PFloat x) = Inr (PFloat x)"
| "convert_decimals env (PStr s) = Inr (PStr s)"
| "convert_decimals env (PDecimal d) = convert_decimal env d"
| "convert_decimals env (PList vs) =
     wrap PList (sequence (map (convert_decimals env) vs))"
| "convert_decimals env (PDict kvs) =
     wrap PDict (sequence (map keyed (map (map_prod id (convert_decimals env)) kvs)))"
| "convert_decimals env (PSet vs) =
     wrap PList (sequence (map (convert_decimals env) vs))"

section \<open>The case filter and the metrics\<close>

definition dict_get :: "'f pydict \<Rightarrow> string \<Rightarrow> 'f pyval \<Rightarrow> 'f pyval" where
  \<comment> \<open>\<^verbatim>\<open>d.get(k, default)\<close>; \<^verbatim>\<open>d.get(k)\<close> is \<open>dict_get d k PNone\<close>\<close>
  "dict_get d k dflt = (case map_of d k of None \<Rightarrow> dflt | Some v \<Rightarrow> v)"

text \<open>
  The criteria are a dictionary with the keys \<^verbatim>\<open>status\<close>, \<^verbatim>\<open>document_type\<close>,
  \<^verbatim>\<open>priority\<close> and \<^verbatim>\<open>search_term\<close>, each of which may be missing: the first three hold
  a collection of strings (the selections of a multi-select widget), the last a string.
  \<open>None\<close> is the missing key.
\<close>

record filters =
  status :: "string list option"
  document_type :: "string list option"
  priority :: "string list option"
  search_term :: "string option"

definition py_in :: "'f pyval \<Rightarrow> string list \<Rightarrow> bool" where
  \<comment> \<open>\<^verbatim>\<open>v in xs\<close> for a collection of strings: only a string equals a string\<close>
  "py_in v xs = (case v of PStr s \<Rightarrow> s \<in> set xs | _ \<Rightarrow> False)"

definition py_eq_str :: "'f pyval \<Rightarrow> string \<Rightarrow> bool" where
  \<comment> \<open>\<^verbatim>\<open>v == 'literal'\<close>\<close>
  "py_eq_str v s = (case v of PStr t \<Rightarrow> t = s | _ \<Rightarrow> False)"

definition py_str :: "'f pyenv \<Rightarrow> 'f pyval \<Rightarrow> string" where
  \<comment> \<open>\<^verbatim>\<open>str(v)\<close>: a string is itself\<close>
  "py_str env v = (case v of PStr s \<Rightarrow> s | _ \<Rightarrow> str_other env v)"

definition search_fields :: "string list" where
  "search_fields =
     [''patientName'', ''fileName'', ''documentType'', ''caseSummary'',
      ''diagnosisDescription'']"

definition case_matches_search :: "'f pyenv \<Rightarrow> 'f pydict \<Rightarrow> string \<Rightarrow> bool" where
  \<comment> \<open>\<^verbatim>\<open>CaseManager._case_matches_search\<close>; \<^verbatim>\<open>t in s\<close> on strings is \<open>sublist t s\<close>\<close>
  "case_matches_search env c term =
     list_ex (\<lambda>field. sublist term (lower env (py_str env (dict_get c field (PStr [])))))
       search_fields"

definition filter_cases :: "'f pyenv \<Rightarrow> 'f pydict list \<Rightarrow> filters \<Rightarrow> 'f pydict list" where
  "filter_cases env cases f =
     (let filtered = cases;
          filtered = (case status f of
                        Some (x # xs) \<Rightarrow>
                          filter (\<lambda>c. py_in (dict_get c ''status'' PNone) (x # xs)) filtered
                      | _ \<Rightarrow> filtered);
          filtered = (case document_type f of
                        Some (x # xs) \<Rightarrow>
                          filter (\<lambda>c. py_in (dict_get c ''documentType'' PNone) (x # xs)) filtered
                      | _ \<Rightarrow> filtered);
          filtered = (case priority f of
                        Some (x # xs) \<Rightarrow>
                          filter (\<lambda>c. py_in (dict_get c ''priority'' PNone) (x # xs)) filtered
                      | _ \<Rightarrow> filtered);
          filtered = (case search_term f of
                        Some (x # xs) \<Rightarrow>
                          filter (\<lambda>c. case_matches_search env c (lower env (x # xs))) filtered
                      | _ \<Rightarrow> filtered)
      in filtered)"

record metrics =
  total_cases :: nat
  pending_cases :: nat
  high_priority :: nat
  approved_cases :: nat

definition get_case_metrics :: "'f pydict list \<Rightarrow> metrics" where
  "get_case_metrics cases =
     \<lparr> total_cases = length cases,
       pending_cases =
         length (filter (\<lambda>c. py_eq_str (dict_get c ''status'' PNone) ''PENDING_REVIEW'') cases),
       high_priority =
         length (filter (\<lambda>c. py_eq_str (dict_get c ''priority'' PNone) ''HIGH'') cases),
       approved_cases =
         length (filter (\<lambda>c. py_eq_str (dict_get c ''status'' PNone) ''APPROVED'') cases) \<rparr>"

section \<open>The case store gateway\<close>

text \<open>
  \<^verbatim>\<open>CaseManager\<close> talks to whatever client object it was given: the client hands out
  a table, and the table scans and updates. The persistent state of the store has the
  type \<open>'s\<close>. A call either returns or raises; \<open>update_item\<close> also returns the state it
  leaves behind. The arguments of \<open>update_item\<close> are the value of the key
  \<^verbatim>\<open>caseID\<close> and the value bound to \<^verbatim>\<open>:new_status\<close>; the update expression
  \<^verbatim>\<open>SET #status = :new_status\<close> is fixed in the source and carries no condition.

  The log is the list of records that the logger of \<^verbatim>\<open>case_utils\<close> receives.
\<close>

datatype level = INFO | ERROR

type_synonym log_entry = "level \<times> string"

record ('f, 's) table =
  scan :: "'s \<Rightarrow> exn + 'f pydict"
  update_item :: "'s \<Rightarrow> string \<Rightarrow> string \<Rightarrow> (exn + unit) \<times> 's"

record ('f, 's) aws_client =
  get_table :: "'s \<Rightarrow> string \<Rightarrow> exn + ('f, 's) table"

definition table_name :: string where
  "table_name = ''HealthCareCases''"

definition py_iter :: "'f pyval \<Rightarrow> exn + 'f pyval list" where
  \<comment> \<open>the elements a \<^verbatim>\<open>for\<close> loop visits\<close>
  "py_iter v =
     (case v of
        PList xs \<Rightarrow> Inr xs
      | PSet xs \<Rightarrow> Inr xs
      | PDict kvs \<Rightarrow> Inr (map (\<lambda>kv. PStr (fst kv)) kvs)
      | PStr s \<Rightarrow> Inr (map (\<lambda>c. PStr [c]) s)
      | _ \<Rightarrow> Inl (Exn ''TypeError'' ''object is not iterable''))"

definition fetch_cases :: "'f pyenv \<Rightarrow> ('f, 's) aws_client \<Rightarrow> 's \<Rightarrow> exn + 'f pyval list" where
  \<comment> \<open>the body of the \<^verbatim>\<open>try\<close> block of \<^verbatim>\<open>get_all_cases\<close>\<close>
  "fetch_cases env client s =
     (case get_table client s table_name of
        Inl e \<Rightarrow> Inl e
      | Inr tbl \<Rightarrow>
          (case scan tbl s of
             Inl e \<Rightarrow> Inl e
           | Inr response \<Rightarrow>
               (case py_iter (dict_get response ''Items'' (PList [])) of
                  Inl e \<Rightarrow> Inl e
                | Inr cases \<Rightarrow> sequence (map (cm_convert_decimals env) cases))))"

definition get_all_cases ::
  "'f pyenv \<Rightarrow> ('f, 's) aws_client \<Rightarrow> 's \<Rightarrow> exn + ('f pyval list \<times> log_entry list)" where
  "get_all_cases env client s =
     (case fetch_cases env client s of
        Inr converted_cases \<Rightarrow> Inr (converted_cases, [])
      | Inl e \<Rightarrow> Inr ([], [(ERROR, ''Error fetching cases: '' @ exn_msg e)]))"

definition update_case_status ::
  "('f, 's) aws_client \<Rightarrow> 's \<Rightarrow> string \<Rightarrow> string \<Rightarrow> exn + (bool \<times> 's \<times> log_entry list)" where
  "update_case_status client s case_id new_status =
     (case get_table client s table_name of
        Inl e \<Rightarrow>
          Inr (False, s, [(ERROR, ''Error updating case '' @ case_id @ '': '' @ exn_msg e)])
      | Inr tbl \<Rightarrow>
          (case update_item tbl s case_id new_status of
             (Inl e, s') \<Rightarrow>
               Inr (False, s', [(ERROR, ''Error updating case '' @ case_id @ '': '' @ exn_msg e)])
           | (Inr _, s') \<Rightarrow>
               Inr (True, s', [(INFO, ''Case '' @ case_id @ '' updated to '' @ new_status)])))"

subsection \<open>Two stores\<close>

text \<open>
  The test suite's \<^verbatim>\<open>MockAWSClient\<close>: its table scans to no items and its
  \<^verbatim>\<open>update_item\<close> returns without doing anything.
\<close>

definition MockTable :: "('f, 's) table" where
  "MockTable =
     \<lparr> scan = (\<lambda>s. Inr [(''Items'', PList [])]),
       update_item = (\<lambda>s case_id new_status. (Inr (), s)) \<rparr>"

definition MockAWSClient :: "('f, 's) aws_client" where
  "MockAWSClient = \<lparr> get_table = (\<lambda>s name. Inr MockTable) \<rparr>"

text \<open>
  The production store is a DynamoDB table, whose state is the list of its items. Its
  \<^verbatim>\<open>UpdateItem\<close> operation edits the attributes of the item with the given key, or adds
  a new item with that key to the table if there is none.
\<close>

definition has_key :: "string \<Rightarrow> 'f pydict \<Rightarrow> bool" where
  "has_key case_id item = py_eq_str (dict_get item ''caseID'' PNone) case_id"

definition dynamo_update_item :: "'f pydict list \<Rightarrow> string \<Rightarrow> string \<Rightarrow> 'f pydict list" where
  "dynamo_update_item items case_id new_status =
     (if list_ex (has_key case_id) items
      then map (\<lambda>item. if has_key case_id item
                        then AList.update ''status'' (PStr new_status) item else item) items
      else items @ [[(''caseID'', PStr case_id), (''status'', PStr new_status)]])"

definition DynamoTable :: "('f, 'f pydict list) table" where
  "DynamoTable =
     \<lparr> scan = (\<lambda>items. Inr [(''Items'', PList (map PDict items))]),
       update_item =
         (\<lambda>items case_id new_status. (Inr (), dynamo_update_item items case_id new_status)) \<rparr>"

definition DynamoClient :: "('f, 'f pydict list) aws_client" where
  "DynamoClient = \<lparr> get_table = (\<lambda>items name. Inr DynamoTable) \<rparr>"

section \<open>The view model helpers of \<^verbatim>\<open>app.py\<close>\<close>

subsection \<open>\<^verbatim>\<open>safe_get\<close>\<close>

fun py_split :: "char \<Rightarrow> string \<Rightarrow> string list" where
  \<comment> \<open>\<^verbatim>\<open>s.split(c)\<close>: never empty\<close>
  "py_split sep [] = [[]]"
| "py_split sep (x # xs) =
     (if x = sep then [] # py_split sep xs
      else (case py_split sep xs of
              [] \<Rightarrow> [[x]]
            | w # ws \<Rightarrow> (x # w) # ws))"

fun safe_get_loop :: "'f pyval \<Rightarrow> string list \<Rightarrow> 'f pyval option" where
  \<comment> \<open>the \<^verbatim>\<open>for k in keys\<close> loop; \<open>None\<close> is its \<^verbatim>\<open>return default\<close>\<close>
  "safe_get_loop current [] = Some current"
| "safe_get_loop current (k # ks) =
     (case current of
        PDict d \<Rightarrow>
          (case map_of d k of
             Some v \<Rightarrow> safe_get_loop v ks
           | None \<Rightarrow> None)
      | _ \<Rightarrow> None)"

definition safe_get :: "'f pyenv \<Rightarrow> 'f pyval \<Rightarrow> string \<Rightarrow> 'f pyval \<Rightarrow> exn + 'f pyval" where
  "safe_get env data key dflt =
     (case data of
        PDict d \<Rightarrow>
          (case safe_get_loop data (py_split CHR ''.'' key) of
             None \<Rightarrow> Inr dflt
           | Some PNone \<Rightarrow> Inr dflt
           | Some current \<Rightarrow> convert_decimals env current)
      | _ \<Rightarrow> Inr dflt)"

text \<open>
  The lookup as the specification words it: a path resolves to a value when every
  segment is present and every value traversed on the way is a dictionary.
\<close>

inductive resolves :: "'f pyval \<Rightarrow> string list \<Rightarrow> 'f pyval \<Rightarrow> bool" where
  resolves_here: "resolves v [] v"
| resolves_step: "map_of d k = Some v \<Longrightarrow> resolves v ks w \<Longrightarrow> resolves (PDict d) (k # ks) w"

subsection \<open>\<^verbatim>\<open>format_timestamp\<close>\<close>

text \<open>
  \<^verbatim>\<open>datetime.fromtimestamp(t)\<close> without a zone is the local civil time of the instant
  \<open>t\<close>: the epoch second shifted by the zone's offset, split into days and seconds of
  the day, the days turned into a date of the proleptic Gregorian calendar. Years
  outside 1..9999 raise.
\<close>

definition civil_from_days :: "int \<Rightarrow> int \<times> int \<times> int" where
  "civil_from_days days =
     (let z = days + 719468;
          era = z div 146097;
          doe = z - era * 146097;
          yoe = (doe - doe div 1460 + doe div 36524 - doe div 146096) div 365;
          doy = doe - (365 * yoe + yoe div 4 - yoe div 100);
          mp = (5 * doy + 2) div 153;
          d = doy - (153 * mp + 2) div 5 + 1;
          m = (if mp < 10 then mp + 3 else mp - 9);
          y = yoe + era * 400 + (if m \<le> 2 then 1 else 0)
      in (y, m, d))"

definition civil_time :: "int \<Rightarrow> exn + datetime" where
  \<comment> \<open>the date and time of day that lie \<open>local\<close> seconds after 1970-01-01 00:00:00\<close>
  "civil_time local =
     (let sod = local mod 86400
      in case civil_from_days (local div 86400) of
           (y, m, d) \<Rightarrow>
             if y < 1 \<or> 9999 < y then Inl (Exn ''ValueError'' ''year is out of range'')
             else Inr (Datetime y m d (sod div 3600) (sod mod 3600 div 60) (sod mod 60)))"

definition fromtimestamp :: "'f pyenv \<Rightarrow> int \<Rightarrow> exn + datetime" where
  "fromtimestamp env t = civil_time (t + utcoffset env t)"

fun string_of_nat :: "nat \<Rightarrow> string" where
  "string_of_nat n =
     (if n < 10 then [''0123456789'' ! n]
      else string_of_nat (n div 10) @ [''0123456789'' ! (n mod 10)])"

declare string_of_nat.simps [simp del]

definition pad2 :: "int \<Rightarrow> string" where
  \<comment> \<open>two digits, as \<^verbatim>\<open>%m %d %H %M %S\<close> print\<close>
  "pad2 i = (if i < 10 then ''0'' @ string_of_nat (nat i) else string_of_nat (nat i))"

definition year_string :: "'f pyenv \<Rightarrow> int \<Rightarrow> string" where
  \<comment> \<open>\<^verbatim>\<open>%Y\<close>: the digits of the year, filled to four with zeros where the C library does so\<close>
  "year_string env y =
     (if year_padded env
      then replicate (4 - length (string_of_nat (nat y))) CHR ''0'' @ string_of_nat (nat y)
      else string_of_nat (nat y))"

definition strftime :: "'f pyenv \<Rightarrow> datetime \<Rightarrow> string" where
  \<comment> \<open>\<^verbatim>\<open>dt.strftime('%Y-%m-%d %H:%M:%S')\<close>\<close>
  "strftime env dt =
     year_string env (dt_year dt) @ ''-'' @ pad2 (dt_month dt) @ ''-'' @ pad2 (dt_day dt)
       @ '' '' @ pad2 (dt_hour dt) @ '':'' @ pad2 (dt_minute dt) @ '':'' @ pad2 (dt_second dt)"

definition replace_Z :: "string \<Rightarrow> string" where
  \<comment> \<open>\<^verbatim>\<open>timestamp.replace('Z', '+00:00')\<close>: every occurrence\<close>
  "replace_Z s = concat (map (\<lambda>c. if c = CHR ''Z'' then ''+00:00'' else [c]) s)"

definition format_timestamp :: "'f pyenv \<Rightarrow> 'f pyval \<Rightarrow> exn + 'f pyval" where
  "format_timestamp env timestamp =
     (case timestamp of
        PInt t \<Rightarrow> wrap (\<lambda>dt. PStr (strftime env dt)) (fromtimestamp env t)
      | PBool b \<Rightarrow> wrap (\<lambda>dt. PStr (strftime env dt)) (fromtimestamp env (if b then 1 else 0))
      | PFloat x \<Rightarrow> wrap (\<lambda>dt. PStr (strftime env dt)) (fromtimestamp_float env x)
      | PStr s \<Rightarrow>
          (case fromisoformat env (replace_Z s) of
             Inr dt \<Rightarrow> Inr (PStr (strftime env dt))
           | Inl e \<Rightarrow> Inr (PStr s))
      | _ \<Rightarrow> Inr (PStr (py_str env timestamp)))"

text \<open>
  A parser for the environment of the examples. It accepts the full form
  \<^verbatim>\<open>YYYY-MM-DD?HH:MM:SS\<close> with any separator, alone or followed by an offset
  \<^verbatim>\<open>+HH:MM\<close> or \<^verbatim>\<open>-HH:MM\<close>, checks the ranges of the fields and rejects every other
  string. The library's parser accepts these strings with the same result, and more
  forms besides.
\<close>

definition is_digit :: "char \<Rightarrow> bool" where
  "is_digit c = (48 \<le> (of_char c :: nat) \<and> (of_char c :: nat) \<le> 57)"

definition int_of_digits :: "string \<Rightarrow> int option" where
  "int_of_digits s =
     (if s \<noteq> [] \<and> list_all is_digit s
      then Some (foldl (\<lambda>a c. 10 * a + (int (of_char c) - 48)) 0 s) else None)"

definition days_in_month :: "int \<Rightarrow> int \<Rightarrow> int" where
  "days_in_month y m =
     (if m = 2 then (if y mod 4 = 0 \<and> (y mod 100 \<noteq> 0 \<or> y mod 400 = 0) then 29 else 28)
      else if m = 4 \<or> m = 6 \<or> m = 9 \<or> m = 11 then 30 else 31)"

definition invalid_iso :: exn where
  "invalid_iso = Exn ''ValueError'' ''Invalid isoformat string''"

definition offset_ok :: "string \<Rightarrow> bool" where
  "offset_ok tz =
     (tz = [] \<or>
      (length tz = 6 \<and> (tz ! 0 = CHR ''+'' \<or> tz ! 0 = CHR ''-'') \<and> tz ! 3 = CHR '':'' \<and>
       (case (int_of_digits (take 2 (drop 1 tz)), int_of_digits (drop 4 tz)) of
          (Some h, Some m) \<Rightarrow> h < 24 \<and> m < 60
        | _ \<Rightarrow> False)))"

definition iso_seconds :: "string \<Rightarrow> exn + datetime" where
  "iso_seconds s =
     (if 19 \<le> length s \<and> s ! 4 = CHR ''-'' \<and> s ! 7 = CHR ''-'' \<and> s ! 13 = CHR '':'' \<and>
         s ! 16 = CHR '':'' \<and> offset_ok (drop 19 s)
      then
        (case (int_of_digits (take 4 s), int_of_digits (take 2 (drop 5 s)),
               int_of_digits (take 2 (drop 8 s)), int_of_digits (take 2 (drop 11 s)),
               int_of_digits (take 2 (drop 14 s)), int_of_digits (take 2 (drop 17 s))) of
           (Some y, Some m, Some d, Some h, Some mi, Some sec) \<Rightarrow>
             if 1 \<le> y \<and> 1 \<le> m \<and> m \<le> 12 \<and> 1 \<le> d \<and> d \<le> days_in_month y m \<and>
                h < 24 \<and> mi < 60 \<and> sec < 60
             then Inr (Datetime y m d h mi sec) else Inl invalid_iso
         | _ \<Rightarrow> Inl invalid_iso)
      else Inl invalid_iso)"

text \<open>
  The environment of the examples. A float is named by the decimal it was converted
  from, and its time is that of the decimal rounded to microseconds, halves to the even
  neighbour. The local zone is UTC shifted by a fixed number of seconds. \<^verbatim>\<open>str()\<close> is
  given for None, booleans and integers, the values the examples hold besides strings.
  Lower-casing maps the letters A to Z to a to z, which is what \<^verbatim>\<open>str.lower()\<close> does on
  ASCII text. The year is printed as the GNU C library prints it, without padding.
\<close>

definition lower_char :: "char \<Rightarrow> char" where
  "lower_char c =
     (if 65 \<le> (of_char c :: nat) \<and> (of_char c :: nat) \<le> 90
      then char_of ((of_char c :: nat) + 32) else c)"

definition ascii_lower :: "string \<Rightarrow> string" where
  "ascii_lower s = map lower_char s"

definition dec_round_micros :: "dec \<Rightarrow> int" where
  "dec_round_micros d =
     (let e = dec_exp d + 6;
          c = dec_coef d;
          p = 10 ^ nat (- e);
          m = (if 0 \<le> e then c * 10 ^ nat e
               else if p < 2 * (c mod p) \<or> (2 * (c mod p) = p \<and> odd (c div p))
                    then c div p + 1 else c div p)
      in if dec_sign d then - int m else int m)"

definition example_str :: "dec pyval \<Rightarrow> string" where
  "example_str v =
     (case v of
        PNone \<Rightarrow> ''None''
      | PBool b \<Rightarrow> (if b then ''True'' else ''False'')
      | PInt i \<Rightarrow> (if i < 0 then ''-'' @ string_of_nat (nat (- i)) else string_of_nat (nat i))
      | _ \<Rightarrow> [])"

definition example_env :: "int \<Rightarrow> dec pyenv" where
  "example_env offset =
     \<lparr> float_of_decimal = (\<lambda>d. d),
       utcoffset = (\<lambda>t. offset),
       fromtimestamp_float = (\<lambda>d. civil_time (dec_round_micros d div 1000000 + offset)),
       fromisoformat = iso_seconds,
       str_other = example_str,
       lower = ascii_lower,
       year_padded = False \<rparr>"

definition two_cases :: "dec pydict list" where
  \<comment> \<open>the cases of \<^verbatim>\<open>test_filter_cases\<close>, with a patient each\<close>
  "two_cases =
     [[(''status'', PStr ''PENDING_REVIEW''), (''documentType'', PStr ''pre-auth''),
       (''priority'', PStr ''HIGH''), (''patientName'', PStr ''John Smith'')],
      [(''status'', PStr ''APPROVED''), (''documentType'', PStr ''clinical-note''),
       (''priority'', PStr ''MEDIUM''), (''patientName'', PStr ''Ann Lee'')]]"

section \<open>Properties of the filter and the metrics\<close>

lemma py_eq_str_get: "py_eq_str (dict_get c k PNone) s \<longleftrightarrow> map_of c k = Some (PStr s)"
  by (auto simp: py_eq_str_def dict_get_def split: option.splits pyval.splits)

lemma py_in_get:
  "py_in (dict_get c k PNone) xs \<longleftrightarrow> (\<exists>s \<in> set xs. map_of c k = Some (PStr s))"
  by (auto simp: py_in_def dict_get_def split: option.splits pyval.splits)

lemma field_text:
  "py_str env (dict_get c field (PStr [])) =
     (case map_of c field of None \<Rightarrow> [] | Some v \<Rightarrow> py_str env v)"
  by (simp add: dict_get_def py_str_def split: option.split)

lemma case_matches_search_iff:
  "case_matches_search env c t \<longleftrightarrow>
   (\<exists>field \<in> set search_fields.
      sublist t (lower env (case map_of c field of None \<Rightarrow> [] | Some v \<Rightarrow> py_str env v)))"
  unfolding case_matches_search_def list_ex_iff field_text ..

text \<open>
  Claim C5. For every list of cases, \<open>get_case_metrics\<close> returns the length of the list
  as the total, the number of cases whose status is \<^verbatim>\<open>PENDING_REVIEW\<close> as the pending
  count, the number whose priority is \<^verbatim>\<open>HIGH\<close> as the high-priority count and the number
  whose status is \<^verbatim>\<open>APPROVED\<close> as the approved count; on the empty list all four are 0.
\<close>

theorem get_case_metrics_counts:
  "total_cases (get_case_metrics cs) = length cs \<and>
   pending_cases (get_case_metrics cs) =
     length (filter (\<lambda>c. map_of c ''status'' = Some (PStr ''PENDING_REVIEW'')) cs) \<and>
   high_priority (get_case_metrics cs) =
     length (filter (\<lambda>c. map_of c ''priority'' = Some (PStr ''HIGH'')) cs) \<and>
   approved_cases (get_case_metrics cs) =
     length (filter (\<lambda>c. map_of c ''status'' = Some (PStr ''APPROVED'')) cs) \<and>
   get_case_metrics [] =
     \<lparr> total_cases = 0, pending_cases = 0, high_priority = 0, approved_cases = 0 \<rparr>"
  by (simp add: get_case_metrics_def py_eq_str_get)

theorem get_case_metrics_counts_witness:
  "get_case_metrics two_cases =
     \<lparr> total_cases = 2, pending_cases = 1, high_priority = 1, approved_cases = 1 \<rparr>"
  using get_case_metrics_counts [of two_cases]
  by (cases "get_case_metrics two_cases") (simp add: two_cases_def)

text \<open>
  Claim C9. For every list of cases, filtering with criteria in which every field is
  unset returns the list itself.
\<close>

theorem filter_cases_identity:
  "filter_cases env cs
     \<lparr> status = None, document_type = None, priority = None, search_term = None \<rparr> = cs"
  by (simp add: filter_cases_def)

theorem filter_cases_identity_witness:
  "filter_cases (example_env 0) two_cases
     \<lparr> status = None, document_type = None, priority = None, search_term = None \<rparr> =
   two_cases"
  using filter_cases_identity [of "example_env 0" two_cases] by simp

text \<open>
  Claim C10. A criterion that is present but empty (an empty collection of statuses,
  document types or priorities, or the empty search string) restricts nothing: whatever
  the other criteria are, the result is the one obtained with that criterion absent, and
  filtering with all four criteria empty returns the list unchanged.
\<close>

theorem filter_cases_empty_criteria:
  "filter_cases env cs (f\<lparr>status := Some []\<rparr>) = filter_cases env cs (f\<lparr>status := None\<rparr>) \<and>
   filter_cases env cs (f\<lparr>document_type := Some []\<rparr>) =
     filter_cases env cs (f\<lparr>document_type := None\<rparr>) \<and>
   filter_cases env cs (f\<lparr>priority := Some []\<rparr>) =
     filter_cases env cs (f\<lparr>priority := None\<rparr>) \<and>
   filter_cases env cs (f\<lparr>search_term := Some []\<rparr>) =
     filter_cases env cs (f\<lparr>search_term := None\<rparr>) \<and>
   filter_cases env cs
     \<lparr> status = Some [], document_type = Some [], priority = Some [], search_term = Some [] \<rparr>
     = cs"
  by (simp add: filter_cases_def)

theorem filter_cases_empty_criteria_witness:
  "filter_cases (example_env 0) two_cases
     \<lparr> status = Some [], document_type = Some [], priority = Some [], search_term = Some [] \<rparr>
     = two_cases"
  using filter_cases_empty_criteria [of "example_env 0" two_cases] by simp

text \<open>
  Claim C2. For every list of cases and every status value \<open>S\<close>, filtering with criteria
  whose only set field is the status collection holding \<open>S\<close> alone returns exactly the
  cases whose status equals \<open>S\<close>, in the order they have in the input. The result is a
  new list and the input is left as it was: the list is a value here, and the result is
  a subsequence of it.
\<close>

theorem filter_cases_status:
  "filter_cases env cs
     \<lparr> status = Some [S], document_type = None, priority = None, search_term = None \<rparr> =
     filter (\<lambda>c. map_of c ''status'' = Some (PStr S)) cs \<and>
   subseq (filter_cases env cs
     \<lparr> status = Some [S], document_type = None, priority = None, search_term = None \<rparr>) cs"
  by (simp add: filter_cases_def py_in_get)

theorem filter_cases_status_witness:
  "filter_cases (example_env 0) two_cases
     \<lparr> status = Some [''PENDING_REVIEW''], document_type = None, priority = None,
       search_term = None \<rparr> = [hd two_cases]"
  using filter_cases_status [of "example_env 0" two_cases "''PENDING_REVIEW''"]
  by (simp add: two_cases_def)

text \<open>
  Claim C7. For every case and every search term that is not empty, the search criterion
  keeps the case if and only if the lowercased term is a substring of the lowercased
  text of at least one of the fields \<^verbatim>\<open>patientName\<close>, \<^verbatim>\<open>fileName\<close>, \<^verbatim>\<open>documentType\<close>,
  \<^verbatim>\<open>caseSummary\<close> and \<^verbatim>\<open>diagnosisDescription\<close>, where a missing field counts as the
  empty string. The text of a field is \<^verbatim>\<open>str()\<close> of its value, the value itself when it
  is a string, and lower-casing is \<^verbatim>\<open>str.lower()\<close>, whatever it does to the text.
\<close>

theorem filter_cases_search:
  "term \<noteq> [] \<Longrightarrow>
   filter_cases env cs
     \<lparr> status = None, document_type = None, priority = None, search_term = Some term \<rparr> =
   filter (\<lambda>c. \<exists>field \<in> set [''patientName'', ''fileName'', ''documentType'', ''caseSummary'',
                              ''diagnosisDescription''].
                 sublist (lower env term)
                   (lower env (case map_of c field of None \<Rightarrow> [] | Some v \<Rightarrow> py_str env v))) cs"
proof -
  assume "term \<noteq> []"
  then obtain x xs where t: "term = x # xs" by (cases "term") auto
  show ?thesis
    unfolding t filter_cases_def case_matches_search_iff search_fields_def
    by (simp add: Let_def)
qed

theorem filter_cases_search_witness:
  "''SMITH'' \<noteq> [] \<and>
   filter_cases (example_env 0) two_cases
     \<lparr> status = None, document_type = None, priority = None, search_term = Some ''SMITH'' \<rparr> =
   [hd two_cases]"
proof -
  have ne: "''SMITH'' \<noteq> []" by simp
  have rhs: "filter (\<lambda>c. \<exists>field \<in> set [''patientName'', ''fileName'', ''documentType'', ''caseSummary'',
                              ''diagnosisDescription''].
                 sublist (lower (example_env 0) ''SMITH'')
                   (lower (example_env 0)
                      (case map_of c field of None \<Rightarrow> [] | Some v \<Rightarrow> py_str (example_env 0) v)))
             two_cases
             = [hd two_cases]"
    by code_simp
  show ?thesis
    using filter_cases_search [OF ne, of "example_env 0" two_cases] rhs by simp
qed

section \<open>Properties of the gateway\<close>

text \<open>
  Claim C8. \<open>get_all_cases\<close> never raises: it always returns. When the retrieval fails,
  be it that the table cannot be obtained, that the scan raises, or that anything else in
  the guarded block raises, it returns the empty list and logs one error record that
  carries the text of the exception.
\<close>

theorem get_all_cases_failure:
  "(\<exists>cases lg. get_all_cases env client s = Inr (cases, lg)) \<and>
   (get_table client s table_name = Inl e \<longrightarrow>
      get_all_cases env client s = Inr ([], [(ERROR, ''Error fetching cases: '' @ exn_msg e)])) \<and>
   (get_table client s table_name = Inr tbl \<and> scan tbl s = Inl e \<longrightarrow>
      get_all_cases env client s = Inr ([], [(ERROR, ''Error fetching cases: '' @ exn_msg e)])) \<and>
   (fetch_cases env client s = Inl e \<longrightarrow>
      get_all_cases env client s = Inr ([], [(ERROR, ''Error fetching cases: '' @ exn_msg e)]))"
  by (auto simp: get_all_cases_def fetch_cases_def split: sum.splits)

theorem get_all_cases_failure_witness:
  "get_all_cases (example_env 0)
     (\<lparr> get_table = (\<lambda>s name. Inl (Exn ''ClientError'' ''ResourceNotFoundException'')) \<rparr>
        :: (dec, dec pydict list) aws_client)
     ([] :: dec pydict list) =
   Inr ([], [(ERROR, ''Error fetching cases: ResourceNotFoundException'')])"
  using get_all_cases_failure
    [of "example_env 0"
        "(\<lparr> get_table = (\<lambda>s name. Inl (Exn ''ClientError'' ''ResourceNotFoundException'')) \<rparr>
        :: (dec, dec pydict list) aws_client)"
        "[] :: dec pydict list" "Exn ''ClientError'' ''ResourceNotFoundException''"]
  by simp

text \<open>
  Claim C1, as the specification states it, does not hold: \<open>update_case_status\<close> makes
  no check that the case exists, and the update it sends carries no condition. For an
  identifier that no item of an empty DynamoDB table has, the call returns \<open>True\<close> and
  the table holds a new item afterwards; against the test suite's mock table the call
  returns \<open>True\<close> as well.
\<close>

theorem update_case_status_absent_id_counterexample:
  "\<not> list_ex (has_key ''C-404'') ([] :: dec pydict list) \<and>
   update_case_status DynamoClient ([] :: dec pydict list) ''C-404'' ''APPROVED'' =
     Inr (True, [[(''caseID'', PStr ''C-404''), (''status'', PStr ''APPROVED'')]],
          [(INFO, ''Case C-404 updated to APPROVED'')]) \<and>
   update_case_status (MockAWSClient :: (dec, unit) aws_client) () ''C-404'' ''APPROVED'' =
     Inr (True, (), [(INFO, ''Case C-404 updated to APPROVED'')])"
  by (simp add: update_case_status_def DynamoClient_def DynamoTable_def dynamo_update_item_def
      MockAWSClient_def MockTable_def)

text \<open>
  Claim C1, amended. \<open>update_case_status\<close> never raises. It returns \<open>False\<close>, with an
  error record in the log, exactly in the two cases where the table cannot be obtained
  (the store is then left as it was) or \<open>update_item\<close> raises (the store is as that call
  left it). Whenever \<open>update_item\<close> returns, the result is \<open>True\<close>, whether or not the
  identifier is present, and the store is as \<open>update_item\<close> left it: for an identifier
  absent from a DynamoDB table, the table with a new item made of the key and the status.
\<close>

theorem update_case_status_result:
  "(\<exists>ok s' lg. update_case_status client s case_id new_status = Inr (ok, s', lg)) \<and>
   (get_table client s table_name = Inl e \<longrightarrow>
      update_case_status client s case_id new_status =
        Inr (False, s, [(ERROR, ''Error updating case '' @ case_id @ '': '' @ exn_msg e)])) \<and>
   (get_table client s table_name = Inr tbl \<and>
    update_item tbl s case_id new_status = (Inl e, s') \<longrightarrow>
      update_case_status client s case_id new_status =
        Inr (False, s', [(ERROR, ''Error updating case '' @ case_id @ '': '' @ exn_msg e)])) \<and>
   (get_table client s table_name = Inr tbl \<and>
    update_item tbl s case_id new_status = (Inr u, s') \<longrightarrow>
      update_case_status client s case_id new_status =
        Inr (True, s', [(INFO, ''Case '' @ case_id @ '' updated to '' @ new_status)])) \<and>
   (\<not> list_ex (has_key case_id) items \<longrightarrow>
      update_case_status DynamoClient items case_id new_status =
        Inr (True, items @ [[(''caseID'', PStr case_id), (''status'', PStr new_status)]],
             [(INFO, ''Case '' @ case_id @ '' updated to '' @ new_status)]))"
  by (auto simp: update_case_status_def DynamoClient_def DynamoTable_def dynamo_update_item_def
      split: sum.splits prod.splits)

theorem update_case_status_result_witness:
  "update_case_status
     (\<lparr> get_table = (\<lambda>s name. Inl (Exn ''ClientError'' ''AccessDenied'')) \<rparr>
        :: (dec, dec pydict list) aws_client)
     [] ''C-404'' ''APPROVED'' =
   Inr (False, [], [(ERROR, ''Error updating case C-404: AccessDenied'')])"
proof -
  have "get_table (\<lparr> get_table = (\<lambda>s name. Inl (Exn ''ClientError'' ''AccessDenied'')) \<rparr>
        :: (dec, dec pydict list) aws_client) [] table_name = Inl (Exn ''ClientError'' ''AccessDenied'')"
    by simp
  with update_case_status_result
    [where client = "\<lparr> get_table = (\<lambda>s name. Inl (Exn ''ClientError'' ''AccessDenied'')) \<rparr>
        :: (dec, dec pydict list) aws_client" and s = "[]" and e = "Exn ''ClientError'' ''AccessDenied''"
       and case_id = "''C-404''" and new_status = "''APPROVED''"
       and items = "[] :: dec pydict list"]
  show ?thesis by simp
qed

section \<open>Properties of the view model helpers\<close>

lemma py_split_nonempty: "py_split c s \<noteq> []"
  by (induction s) (auto split: list.splits)

lemma safe_get_loop_resolves: "safe_get_loop v ks = Some w \<longleftrightarrow> resolves v ks w"
proof (induction ks arbitrary: v)
  case Nil
  show ?case by (auto elim: resolves.cases intro: resolves.intros)
next
  case (Cons k ks)
  show ?case
  proof
    assume "safe_get_loop v (k # ks) = Some w"
    then obtain d v' where "v = PDict d" "map_of d k = Some v'" "safe_get_loop v' ks = Some w"
      by (auto split: pyval.splits option.splits)
    with Cons show "resolves v (k # ks) w" by (auto intro: resolves.intros)
  next
    assume "resolves v (k # ks) w"
    then obtain d v' where "v = PDict d" "map_of d k = Some v'" "resolves v' ks w"
      by (auto elim: resolves.cases)
    with Cons show "safe_get_loop v (k # ks) = Some w" by simp
  qed
qed

lemma safe_get_loop_None: "safe_get_loop v ks = None \<longleftrightarrow> (\<nexists>w. resolves v ks w)"
  using safe_get_loop_resolves [of v ks] by (cases "safe_get_loop v ks") auto

text \<open>
  Claim C3, as the specification states it, does not hold: when every segment of the
  path is present and the value found is \<^verbatim>\<open>None\<close>, \<open>safe_get\<close> returns the default, not
  the value found.
\<close>

theorem safe_get_none_counterexample:
  "resolves (PDict [(''a'', PNone)] :: dec pyval) (py_split CHR ''.'' ''a'') PNone \<and>
   convert_decimals (example_env 0) PNone = Inr PNone \<and>
   safe_get (example_env 0) (PDict [(''a'', PNone)]) ''a'' (PStr ''X'') = Inr (PStr ''X'')"
  by (simp add: safe_get_def safe_get_loop_resolves [symmetric])

text \<open>
  Claim C3, amended. \<open>safe_get\<close> returns the default when the data is not a dictionary,
  when the dotted path does not resolve (a segment is absent, or a value traversed is not
  a dictionary), and when the path resolves to \<^verbatim>\<open>None\<close>. When the path resolves to
  another value and the normalisation of decimals returns for it, \<open>safe_get\<close> returns
  the normalised value. On the empty dictionary the path \<^verbatim>\<open>a.b.c\<close> with default
  \<^verbatim>\<open>X\<close> gives \<^verbatim>\<open>X\<close>, and on \<^verbatim>\<open>{a: {b: {c: 5}}}\<close> it gives 5.
\<close>

theorem safe_get_lookup:
  "((\<forall>d. data \<noteq> PDict d) \<longrightarrow> safe_get env data key dflt = Inr dflt) \<and>
   ((\<nexists>v. resolves data (py_split CHR ''.'' key) v) \<longrightarrow> safe_get env data key dflt = Inr dflt) \<and>
   (resolves data (py_split CHR ''.'' key) PNone \<longrightarrow> safe_get env data key dflt = Inr dflt) \<and>
   (resolves data (py_split CHR ''.'' key) v \<and> v \<noteq> PNone \<and> convert_decimals env v = Inr w \<longrightarrow>
      safe_get env data key dflt = Inr w) \<and>
   safe_get env (PDict []) ''a.b.c'' (PStr ''X'') = Inr (PStr ''X'') \<and>
   safe_get env (PDict [(''a'', PDict [(''b'', PDict [(''c'', PInt 5)])])]) ''a.b.c'' dflt
     = Inr (PInt 5)"
proof (intro conjI impI)
  assume "\<forall>d. data \<noteq> PDict d"
  then show "safe_get env data key dflt = Inr dflt"
    by (cases data) (simp_all add: safe_get_def)
next
  assume "\<nexists>v. resolves data (py_split CHR ''.'' key) v"
  then have "safe_get_loop data (py_split CHR ''.'' key) = None"
    by (simp add: safe_get_loop_None)
  then show "safe_get env data key dflt = Inr dflt"
    by (cases data) (simp_all add: safe_get_def)
next
  assume "resolves data (py_split CHR ''.'' key) PNone"
  then have "safe_get_loop data (py_split CHR ''.'' key) = Some PNone"
    by (simp add: safe_get_loop_resolves)
  then show "safe_get env data key dflt = Inr dflt"
    by (cases data) (simp_all add: safe_get_def)
next
  assume "resolves data (py_split CHR ''.'' key) v \<and> v \<noteq> PNone \<and> convert_decimals env v = Inr w"
  then have l: "safe_get_loop data (py_split CHR ''.'' key) = Some v"
    and v: "v \<noteq> PNone" and c: "convert_decimals env v = Inr w"
    by (simp_all add: safe_get_loop_resolves)
  from l obtain d where "data = PDict d"
    by (cases "py_split CHR ''.'' key"; cases data) (auto simp: py_split_nonempty)
  with l v c show "safe_get env data key dflt = Inr w"
    by (cases v) (auto simp: safe_get_def)
next
  show "safe_get env (PDict []) ''a.b.c'' (PStr ''X'') = Inr (PStr ''X'')"
    by (simp add: safe_get_def)
next
  show "safe_get env (PDict [(''a'', PDict [(''b'', PDict [(''c'', PInt 5)])])]) ''a.b.c'' dflt
     = Inr (PInt 5)"
    by (simp add: safe_get_def)
qed

theorem safe_get_lookup_witness:
  "resolves
     (PDict [(''extractionMetadata'', PDict [(''pages'', PDecimal (Dec False 30 (-1)))])]
        :: dec pyval)
     (py_split CHR ''.'' ''extractionMetadata.pages'') (PDecimal (Dec False 30 (-1))) \<and>
   safe_get (example_env 0)
     (PDict [(''extractionMetadata'', PDict [(''pages'', PDecimal (Dec False 30 (-1)))])])
     ''extractionMetadata.pages'' PNone = Inr (PInt 3)"
proof -
  let ?data = "PDict [(''extractionMetadata'', PDict [(''pages'', PDecimal (Dec False 30 (-1)))])] :: dec pyval"
  let ?v = "PDecimal (Dec False 30 (-1)) :: dec pyval"
  have r: "resolves ?data (py_split CHR ''.'' ''extractionMetadata.pages'') ?v"
    by (simp add: safe_get_loop_resolves [symmetric])
  have c: "convert_decimals (example_env 0) ?v = Inr (PInt 3)"
    by (simp add: convert_decimal_def dec_mod1_nonzero_def dec_int_part_def
        dec_frac_nonzero_def int_of_dec_def)
  from safe_get_lookup [of ?data "example_env 0" "''extractionMetadata.pages''" PNone ?v "PInt 3"] r c
  show ?thesis by simp
qed

lemma year_string_4: "year_string env 1970 = ''1970''" "year_string env 2024 = ''2024''"
  by (simp_all add: year_string_def string_of_nat.simps)

lemma pad2_vals: "pad2 0 = ''00''" "pad2 1 = ''01''" "pad2 10 = ''10''" "pad2 15 = ''15''" "pad2 30 = ''30''"
  by (simp_all add: pad2_def string_of_nat.simps)

lemma strftime_epoch: "strftime env (Datetime 1970 1 1 0 0 0) = ''1970-01-01 00:00:00''"
  by (simp add: strftime_def year_string_4 pad2_vals)

lemma strftime_example: "strftime env (Datetime 2024 1 15 10 30 0) = ''2024-01-15 10:30:00''"
  by (simp add: strftime_def year_string_4 pad2_vals)

lemma replace_Z_example: "replace_Z ''2024-01-15T10:30:00Z'' = ''2024-01-15T10:30:00+00:00''"
  by (simp add: replace_Z_def)

lemma civil_time_epoch: "civil_time 0 = Inr (Datetime 1970 1 1 0 0 0)"
  by code_simp

lemma fromtimestamp_epoch:
  "utcoffset env 0 = 0 \<Longrightarrow> fromtimestamp env 0 = Inr (Datetime 1970 1 1 0 0 0)"
  by (simp add: fromtimestamp_def civil_time_epoch)

text \<open>
  Claim C4, as the specification states it, does not hold: \<open>format_timestamp\<close> reads a
  number as an instant and prints the civil time of the local zone. In a zone five hours
  behind UTC the epoch 0 is printed as the evening of the last day of 1969.
\<close>

theorem format_timestamp_zone_counterexample:
  "format_timestamp (example_env (- 18000)) (PInt 0) = Inr (PStr ''1969-12-31 19:00:00'')"
  by code_simp

text \<open>
  Claim C4, amended. Where the offset of the local zone from UTC at the epoch 0 is zero,
  \<open>format_timestamp\<close> maps the number 0 to \<^verbatim>\<open>1970-01-01 00:00:00\<close>. It maps the string
  \<^verbatim>\<open>2024-01-15T10:30:00Z\<close> to \<^verbatim>\<open>2024-01-15 10:30:00\<close>, the library's parser reading the
  string it is handed, \<^verbatim>\<open>2024-01-15T10:30:00+00:00\<close>, as that date and time. A string
  that the parser rejects comes back unchanged, and on a string \<open>format_timestamp\<close>
  never raises.
\<close>

theorem format_timestamp_cases:
  "(utcoffset env 0 = 0 \<longrightarrow>
      format_timestamp env (PInt 0) = Inr (PStr ''1970-01-01 00:00:00'')) \<and>
   (fromisoformat env ''2024-01-15T10:30:00+00:00'' = Inr (Datetime 2024 1 15 10 30 0) \<longrightarrow>
      format_timestamp env (PStr ''2024-01-15T10:30:00Z'') = Inr (PStr ''2024-01-15 10:30:00'')) \<and>
   (fromisoformat env (replace_Z s) = Inl e \<longrightarrow> format_timestamp env (PStr s) = Inr (PStr s)) \<and>
   (\<exists>r. format_timestamp env (PStr s) = Inr r)"
proof (intro conjI impI)
  assume "utcoffset env 0 = 0"
  then show "format_timestamp env (PInt 0) = Inr (PStr ''1970-01-01 00:00:00'')"
    by (simp add: format_timestamp_def wrap_def fromtimestamp_epoch strftime_epoch)
next
  assume "fromisoformat env ''2024-01-15T10:30:00+00:00'' = Inr (Datetime 2024 1 15 10 30 0)"
  then show "format_timestamp env (PStr ''2024-01-15T10:30:00Z'') = Inr (PStr ''2024-01-15 10:30:00'')"
    by (simp add: format_timestamp_def replace_Z_example strftime_example)
next
  assume "fromisoformat env (replace_Z s) = Inl e"
  then show "format_timestamp env (PStr s) = Inr (PStr s)"
    by (simp add: format_timestamp_def)
next
  show "\<exists>r. format_timestamp env (PStr s) = Inr r"
    by (cases "fromisoformat env (replace_Z s)") (simp_all add: format_timestamp_def)
qed

theorem format_timestamp_cases_witness:
  "format_timestamp (example_env 0) (PInt 0) = Inr (PStr ''1970-01-01 00:00:00'') \<and>
   format_timestamp (example_env 0) (PStr ''2024-01-15T10:30:00Z'') =
     Inr (PStr ''2024-01-15 10:30:00'') \<and>
   format_timestamp (example_env 0) (PStr ''not-a-date'') = Inr (PStr ''not-a-date'')"
proof -
  have z: "utcoffset (example_env 0) 0 = 0"
    by (simp add: example_env_def)
  have p: "fromisoformat (example_env 0) ''2024-01-15T10:30:00+00:00'' =
             Inr (Datetime 2024 1 15 10 30 0)"
    by code_simp
  have n: "fromisoformat (example_env 0) (replace_Z ''not-a-date'') = Inl invalid_iso"
    by code_simp
  from format_timestamp_cases [of "example_env 0" "''not-a-date''" invalid_iso] z p n
  show ?thesis by simp
qed

section \<open>Properties of the normalisation\<close>

text \<open>
  A decimal whose integer part has at most 28 digits is normalised as intended: to the
  integer of the same value when its fractional part is zero, to a float otherwise.
  Decimal 10 becomes the integer 10 and decimal 10.5 a float.
\<close>

lemma convert_decimal_in_range:
  "dec_int_part d < 10 ^ 28 \<Longrightarrow>
   convert_decimal env d =
     Inr (if dec_frac_nonzero d then PFloat (float_of_decimal env d) else PInt (int_of_dec d))"
  by (simp add: convert_decimal_def dec_mod1_nonzero_def)

lemma cm_convert_decimals_examples:
  "cm_convert_decimals env (PDecimal (Dec False 10 0)) = Inr (PInt 10)"
  "cm_convert_decimals env (PDecimal (Dec False 100 (- 1))) = Inr (PInt 10)"
  "cm_convert_decimals env (PDecimal (Dec False 105 (- 1))) =
     Inr (PFloat (float_of_decimal env (Dec False 105 (- 1))))"
  by (simp_all add: convert_decimal_def dec_mod1_nonzero_def dec_int_part_def
      dec_frac_nonzero_def int_of_dec_def)

text \<open>
  Claim C6 says that every decimal with zero fractional part is converted to the integer
  of the same value. The decimal 1E+28 has zero fractional part and the integer value
  \<open>10^28\<close>, and both \<open>cm_convert_decimals\<close> and \<open>convert_decimals\<close> raise
  \<^verbatim>\<open>InvalidOperation\<close> on it instead of returning that integer: the remainder
  \<^verbatim>\<open>obj % 1\<close> is not defined in the default context for a value of 29 digits.
\<close>

theorem convert_decimals_large_integral:
  "\<not> dec_frac_nonzero (Dec False 1 28) \<and>
   int_of_dec (Dec False 1 28) = 10 ^ 28 \<and>
   cm_convert_decimals env (PDecimal (Dec False 1 28)) = Inl InvalidOperation \<and>
   convert_decimals env (PDecimal (Dec False 1 28)) = Inl InvalidOperation"
  by (simp add: convert_decimal_def dec_mod1_nonzero_def dec_int_part_def
      dec_frac_nonzero_def int_of_dec_def)

end
